theory Spec2Isabelle
  imports Complex_Main
begin

section \<open>Floating-point cells\<close>

text \<open>
  The value of a Python \<^verbatim>\<open>float\<close> or of a cell of a float column: a finite number, one
  of the two infinities, or NaN. The two zeros of IEEE 754 are one value (a division of
  a non-zero number by zero gives the infinity of the dividend's sign).
\<close>

datatype pyfloat = Fin real | PInf | NInf | NaN

text \<open>
  The exact sum, product and quotient, with the special cases of IEEE 754, which numpy
  computes without raising. An operation of the machine is the exact one followed by
  rounding, below.
\<close>

fun fadd :: "pyfloat \<Rightarrow> pyfloat \<Rightarrow> pyfloat" where
  "fadd (Fin a) (Fin b) = Fin (a + b)"
| "fadd NaN _ = NaN"
| "fadd _ NaN = NaN"
| "fadd PInf NInf = NaN"
| "fadd NInf PInf = NaN"
| "fadd PInf _ = PInf"
| "fadd _ PInf = PInf"
| "fadd NInf _ = NInf"
| "fadd _ NInf = NInf"

fun fmul :: "pyfloat \<Rightarrow> pyfloat \<Rightarrow> pyfloat" where
  "fmul (Fin a) (Fin b) = Fin (a * b)"
| "fmul NaN _ = NaN"
| "fmul _ NaN = NaN"
| "fmul PInf (Fin b) = (if b = 0 then NaN else if 0 < b then PInf else NInf)"
| "fmul NInf (Fin b) = (if b = 0 then NaN else if 0 < b then NInf else PInf)"
| "fmul (Fin a) PInf = (if a = 0 then NaN else if 0 < a then PInf else NInf)"
| "fmul (Fin a) NInf = (if a = 0 then NaN else if 0 < a then NInf else PInf)"
| "fmul PInf PInf = PInf"
| "fmul NInf NInf = PInf"
| "fmul PInf NInf = NInf"
| "fmul NInf PInf = NInf"

fun fdiv :: "pyfloat \<Rightarrow> pyfloat \<Rightarrow> pyfloat" where
  "fdiv (Fin a) (Fin b) =
     (if b = 0 then (if a = 0 then NaN else if 0 < a then PInf else NInf)
      else Fin (a / b))"
| "fdiv NaN _ = NaN"
| "fdiv _ NaN = NaN"
| "fdiv (Fin a) PInf = Fin 0"
| "fdiv (Fin a) NInf = Fin 0"
| "fdiv PInf (Fin b) = (if 0 \<le> b then PInf else NInf)"
| "fdiv NInf (Fin b) = (if 0 \<le> b then NInf else PInf)"
| "fdiv PInf PInf = NaN"
| "fdiv PInf NInf = NaN"
| "fdiv NInf PInf = NaN"
| "fdiv NInf NInf = NaN"

text \<open>
  Rounding to a binary format of precision \<open>p\<close> with exponents from \<open>emin\<close> to \<open>emax\<close>:
  to the nearest value of the format, a tie to the one with an even significand; a
  result of magnitude \<open>2 ^ (emax + 1)\<close> or more overflows to the infinity of its sign, and
  below \<open>2 ^ emin\<close> the spacing stays that of the subnormal numbers.
\<close>

definition round_half_even :: "real \<Rightarrow> int" where
  "round_half_even y =
     (let f = \<lfloor>y\<rfloor>; d = y - of_int f
      in if d < 1 / 2 then f else if 1 / 2 < d then f + 1 else if even f then f else f + 1)"

text \<open>The binary exponent of a positive number: \<open>2 ^ e \<le> x < 2 ^ (e + 1)\<close>.\<close>

function exponent_up :: "real \<Rightarrow> int" where
  "exponent_up x = (if 2 \<le> x then exponent_up (x / 2) + 1 else 0)"
  by pat_completeness auto
termination
  by (relation "measure (\<lambda>x. nat \<lfloor>x\<rfloor>)") (auto simp: nat_less_iff floor_less_iff, linarith)

function exponent_down :: "real \<Rightarrow> int" where
  "exponent_down x = (if 0 < x \<and> x < 1 then exponent_down (2 * x) - 1 else 0)"
  by pat_completeness auto
termination
proof (relation "measure (\<lambda>x. nat \<lfloor>1 / x\<rfloor>)")
  show "wf (measure (\<lambda>x::real. nat \<lfloor>1 / x\<rfloor>))" by simp
next
  fix x :: real
  assume x: "0 < x \<and> x < 1"
  define y where "y = 1 / x"
  from x have "1 < y" by (simp add: y_def)
  then have n: "1 \<le> \<lfloor>y\<rfloor>" by linarith
  then have "(1::real) \<le> of_int \<lfloor>y\<rfloor>" by simp
  moreover have "y < of_int \<lfloor>y\<rfloor> + 1" by linarith
  ultimately have "y / 2 < of_int \<lfloor>y\<rfloor>" by linarith
  then have "\<lfloor>y / 2\<rfloor> < \<lfloor>y\<rfloor>"
    by (simp add: floor_less_iff)
  moreover have "1 / (2 * x) = y / 2" by (simp add: y_def)
  ultimately show "(2 * x, x) \<in> measure (\<lambda>x. nat \<lfloor>1 / x\<rfloor>)"
    using n by (simp add: y_def mult.commute)
qed

declare exponent_up.simps [simp del] exponent_down.simps [simp del]

definition exponent :: "real \<Rightarrow> int" where
  "exponent x = (if 1 \<le> x then exponent_up x else exponent_down x)"

definition ieee_round :: "nat \<Rightarrow> int \<Rightarrow> int \<Rightarrow> real \<Rightarrow> pyfloat" where
  "ieee_round p emin emax x =
     (if x = 0 then Fin 0
      else
        let e = max emin (exponent \<bar>x\<bar>);
            ulp = 2 powi (e - int p + 1);
            y = of_int (round_half_even (x / ulp)) * ulp
        in if 2 powi (emax + 1) \<le> \<bar>y\<bar> then (if 0 < x then PInf else NInf) else Fin y)"

text \<open>Double precision (\<^verbatim>\<open>float64\<close>, Python's \<^verbatim>\<open>float\<close>) and single precision (\<^verbatim>\<open>float32\<close>).\<close>

fun round_float64 :: "pyfloat \<Rightarrow> pyfloat" where
  "round_float64 (Fin x) = ieee_round 53 (- 1022) 1023 x"
| "round_float64 v = v"

fun round_float32 :: "pyfloat \<Rightarrow> pyfloat" where
  "round_float32 (Fin x) = ieee_round 24 (- 126) 127 x"
| "round_float32 v = v"

text \<open>The operations \<^verbatim>\<open>+\<close>, \<^verbatim>\<open>*\<close> and \<^verbatim>\<open>/\<close> on doubles.\<close>

definition add64 :: "pyfloat \<Rightarrow> pyfloat \<Rightarrow> pyfloat" where
  "add64 a b = round_float64 (fadd a b)"

definition mul64 :: "pyfloat \<Rightarrow> pyfloat \<Rightarrow> pyfloat" where
  "mul64 a b = round_float64 (fmul a b)"

definition div64 :: "pyfloat \<Rightarrow> pyfloat \<Rightarrow> pyfloat" where
  "div64 a b = round_float64 (fdiv a b)"

text \<open>The comparison \<^verbatim>\<open><=\<close>: false as soon as one side is NaN.\<close>

fun fle :: "pyfloat \<Rightarrow> pyfloat \<Rightarrow> bool" where
  "fle (Fin a) (Fin b) = (a \<le> b)"
| "fle NaN _ = False"
| "fle _ NaN = False"
| "fle NInf _ = True"
| "fle _ PInf = True"
| "fle PInf _ = False"
| "fle _ NInf = False"


text \<open>The exact sum of a list of values.\<close>

definition fsum :: "pyfloat list \<Rightarrow> pyfloat" where
  "fsum xs = foldl fadd (Fin 0) xs"

section \<open>Cells of a numeric column\<close>

text \<open>
  A duration column read from the CSV file has the type \<^verbatim>\<open>int64\<close> when every value of it
  is written as an integer and \<^verbatim>\<open>float64\<close> otherwise. An \<^verbatim>\<open>int64\<close> cell holds an integer
  from \<open>- 2 ^ 63\<close> to \<open>2 ^ 63 - 1\<close>, and the sum of two of them wraps around.
\<close>

datatype cell = I64 int | F64 pyfloat

definition wrap64 :: "int \<Rightarrow> int" where
  "wrap64 n = (n + 2 ^ 63) mod 2 ^ 64 - 2 ^ 63"

text \<open>The conversion of a cell to a double, which numpy makes where an operand is one.\<close>

fun to_float64 :: "cell \<Rightarrow> pyfloat" where
  "to_float64 (I64 n) = round_float64 (Fin (of_int n))"
| "to_float64 (F64 x) = x"

text \<open>\<^verbatim>\<open>+\<close> on two columns, cell by cell.\<close>

fun col_add :: "cell \<Rightarrow> cell \<Rightarrow> cell" where
  "col_add (I64 a) (I64 b) = I64 (wrap64 (a + b))"
| "col_add a b = F64 (add64 (to_float64 a) (to_float64 b))"

text \<open>\<^verbatim>\<open>astype(np.float32)\<close>: the cell narrowed to single precision.\<close>

fun astype_float32 :: "cell \<Rightarrow> pyfloat" where
  "astype_float32 (I64 n) = round_float32 (Fin (of_int n))"
| "astype_float32 (F64 x) = round_float32 x"

text \<open>
  \<^verbatim>\<open>Series.sum\<close> and \<^verbatim>\<open>Series.mean\<close> of pandas, in double precision. The sum accumulates
  from the first cell on, which is the order of numpy for fewer than eight cells; for a
  longer column numpy groups the additions otherwise, and the sum may differ in its last
  bits. The mean skips the NaN cells (\<^verbatim>\<open>skipna=True\<close> is the default), divides the sum
  of the others by their number, and is NaN when no cell is left.
\<close>

definition sum64 :: "pyfloat list \<Rightarrow> pyfloat" where
  "sum64 xs = foldl add64 (Fin 0) xs"

definition mean :: "cell list \<Rightarrow> pyfloat" where
  "mean xs =
     (let ys = filter (\<lambda>x. x \<noteq> NaN) (map to_float64 xs)
      in if ys = [] then NaN else div64 (sum64 ys) (to_float64 (I64 (int (length ys)))))"

section \<open>The dataset\<close>

text \<open>
  One row of the data frame read from \<^verbatim>\<open>results-full.csv\<close>: the four categorical columns,
  the six duration columns, and the column \<^verbatim>\<open>total\<close> that the script adds and drops again
  (\<open>None\<close> when the frame has no such column).
\<close>

record row =
  benchmark :: string
  profile :: string
  scenario :: string
  kind :: string
  frontend :: cell
  backend :: cell
  linker :: cell
  borrowck :: cell
  typeck :: cell
  metadata :: cell
  total_col :: "cell option"

text \<open>The names of the six duration columns, which the script uses as keys.\<close>

datatype phase = Frontend | Backend | Linker | Borrowck | Typeck | Metadata

fun get_col :: "phase \<Rightarrow> row \<Rightarrow> cell" where
  "get_col Frontend r = frontend r"
| "get_col Backend r = backend r"
| "get_col Linker r = linker r"
| "get_col Borrowck r = borrowck r"
| "get_col Typeck r = typeck r"
| "get_col Metadata r = metadata r"

fun set_col :: "phase \<Rightarrow> cell \<Rightarrow> row \<Rightarrow> row" where
  "set_col Frontend v r = r\<lparr>frontend := v\<rparr>"
| "set_col Backend v r = r\<lparr>backend := v\<rparr>"
| "set_col Linker v r = r\<lparr>linker := v\<rparr>"
| "set_col Borrowck v r = r\<lparr>borrowck := v\<rparr>"
| "set_col Typeck v r = r\<lparr>typeck := v\<rparr>"
| "set_col Metadata v r = r\<lparr>metadata := v\<rparr>"

datatype error = KeyError string

section \<open>Normalization (the script, lines 134 to 137)\<close>

text \<open>\<^verbatim>\<open>df["total"] = df["frontend"] + df["backend"] + df["linker"]\<close>\<close>

definition add_total :: "row list \<Rightarrow> row list" where
  "add_total df =
     map (\<lambda>r. r\<lparr>total_col := Some (col_add (col_add (frontend r) (backend r)) (linker r))\<rparr>)
       df"

text \<open>
  \<^verbatim>\<open>df[key] = (df[key].astype(np.float32) / df["total"]) * 100\<close>, cell by cell: the
  quotient of a single-precision column by an \<^verbatim>\<open>int64\<close> or \<^verbatim>\<open>float64\<close> column is computed
  in double precision, and so is the product. Reading \<^verbatim>\<open>df["total"]\<close> raises KeyError on
  a frame without that column.
\<close>

definition normalize_cell :: "phase \<Rightarrow> row \<Rightarrow> error + row" where
  "normalize_cell key r =
     (case total_col r of
        None \<Rightarrow> Inl (KeyError ''total'')
      | Some t \<Rightarrow>
          Inr (set_col key
                 (F64 (mul64 (div64 (astype_float32 (get_col key r)) (to_float64 t)) (Fin 100)))
                 r))"

fun normalize_column :: "phase \<Rightarrow> row list \<Rightarrow> error + row list" where
  "normalize_column key [] = Inr []"
| "normalize_column key (r # df) =
     (case normalize_cell key r of
        Inl e \<Rightarrow> Inl e
      | Inr r' \<Rightarrow>
          (case normalize_column key df of
             Inl e \<Rightarrow> Inl e
           | Inr df' \<Rightarrow> Inr (r' # df')))"

text \<open>The loop \<^verbatim>\<open>for key in (...)\<close>: one column after the other, in this order.\<close>

definition duration_keys :: "phase list" where
  "duration_keys = [Frontend, Backend, Linker, Borrowck, Typeck, Metadata]"

fun normalize_columns :: "phase list \<Rightarrow> row list \<Rightarrow> error + row list" where
  "normalize_columns [] df = Inr df"
| "normalize_columns (key # keys) df =
     (case normalize_column key df of
        Inl e \<Rightarrow> Inl e
      | Inr df' \<Rightarrow> normalize_columns keys df')"

text \<open>\<^verbatim>\<open>df = df.drop(columns=["total"])\<close>\<close>

definition drop_total :: "row list \<Rightarrow> row list" where
  "drop_total df = map (\<lambda>r. r\<lparr>total_col := None\<rparr>) df"

definition normalization :: "row list \<Rightarrow> error + row list" where
  "normalization df =
     (case normalize_columns duration_keys (add_total df) of
        Inl e \<Rightarrow> Inl e
      | Inr df' \<Rightarrow> Inr (drop_total df'))"

section \<open>Selecting rows\<close>

text \<open>\<^verbatim>\<open>filter_data\<close>: each supplied value keeps the rows whose column equals it.\<close>

definition filter_data ::
  "row list \<Rightarrow> string option \<Rightarrow> string option \<Rightarrow> string option \<Rightarrow> row list" where
  "filter_data data profile' scenario' kind' =
     (let data = (case profile' of None \<Rightarrow> data
                  | Some p \<Rightarrow> filter (\<lambda>r. profile r = p) data);
          data = (case scenario' of None \<Rightarrow> data
                  | Some s \<Rightarrow> filter (\<lambda>r. scenario r = s) data);
          data = (case kind' of None \<Rightarrow> data
                  | Some k \<Rightarrow> filter (\<lambda>r. kind r = k) data)
      in data)"

text \<open>
  \<^verbatim>\<open>data[data["benchmark"] == benchmark]\<close>, the selection that \<^verbatim>\<open>single_bench\<close> makes
  (line 86) before it hands the rows to \<^verbatim>\<open>plot_bar\<close>.
\<close>

definition select_benchmark :: "row list \<Rightarrow> string \<Rightarrow> row list" where
  "select_benchmark data benchmark' = filter (\<lambda>r. benchmark r = benchmark') data"

text \<open>The rows \<^verbatim>\<open>grid\<close> facets (lines 103 to 106).\<close>

definition grid_data :: "row list \<Rightarrow> string option \<Rightarrow> string option \<Rightarrow> row list" where
  "grid_data data benchmark' kind' =
     (let data = (case benchmark' of None \<Rightarrow> data
                  | Some b \<Rightarrow> select_benchmark data b);
          data = (case kind' of None \<Rightarrow> data
                  | Some k \<Rightarrow> filter (\<lambda>r. kind r = k) data)
      in data)"

section \<open>Aggregation\<close>

text \<open>
  \<^verbatim>\<open>pd.melt\<close> with the identifier columns profile, scenario and kind: one long row for
  every value column and every row, the value columns in the order given.
\<close>

record melted =
  m_profile :: string
  m_scenario :: string
  m_kind :: string
  m_section :: phase
  m_percent :: cell

definition melt :: "row list \<Rightarrow> phase list \<Rightarrow> melted list" where
  "melt data value_vars =
     concat (map (\<lambda>v. map (\<lambda>r. \<lparr>m_profile = profile r, m_scenario = scenario r,
                                   m_kind = kind r, m_section = v,
                                   m_percent = get_col v r\<rparr>) data) value_vars)"

text \<open>\<^verbatim>\<open>float(data[data["section"] == s]["Percent"].mean())\<close>\<close>

definition section_mean :: "melted list \<Rightarrow> phase \<Rightarrow> pyfloat" where
  "section_mean data s = mean (map m_percent (filter (\<lambda>m. m_section m = s) data))"

section \<open>The nested stacked bar\<close>

text \<open>
  One call of \<^verbatim>\<open>plt.bar\<close>: the rectangle's lower edge \<open>y\<close>, its left edge \<open>x\<close>, its width,
  the index of its colour in the palette, and its height.
\<close>

record bar =
  bar_y :: real
  bar_x :: pyfloat
  bar_width :: pyfloat
  bar_color :: nat
  bar_height :: real

definition plt_bar :: "real \<Rightarrow> pyfloat \<Rightarrow> pyfloat \<Rightarrow> nat \<Rightarrow> real \<Rightarrow> bar list \<Rightarrow> bar list" where
  "plt_bar y x width color h ax =
     ax @ [\<lparr>bar_y = y, bar_x = x, bar_width = width, bar_color = color, bar_height = h\<rparr>]"

definition height :: real where
  "height = 1"

definition y_offset :: real where
  "y_offset = height / 2"

definition inner_height :: real where
  "inner_height = height - y_offset"

text \<open>
  Lines 46 to 64 of \<^verbatim>\<open>plot_bar\<close>: the cursor \<^verbatim>\<open>fe_base\<close> and the six calls of
  \<^verbatim>\<open>plt.bar\<close>, in the order of the source. The result holds the last value of the cursor
  and the calls made.
\<close>

record layout =
  fe_base :: pyfloat
  drawn :: "bar list"

definition plot_bar_layout ::
  "pyfloat \<Rightarrow> pyfloat \<Rightarrow> pyfloat \<Rightarrow> pyfloat \<Rightarrow> pyfloat \<Rightarrow> layout" where
  "plot_bar_layout avg_backend avg_linker avg_borrowck avg_typeck avg_metadata =
     (let cursor = add64 avg_backend avg_linker;
          ax = plt_bar 0 (Fin 0) (Fin 100) 0 height [];
          ax = plt_bar y_offset cursor avg_borrowck 3 inner_height ax;
          cursor = add64 cursor avg_borrowck;
          ax = plt_bar y_offset cursor avg_typeck 4 inner_height ax;
          cursor = add64 cursor avg_typeck;
          ax = plt_bar y_offset cursor avg_metadata 5 inner_height ax;
          ax = plt_bar 0 avg_linker avg_backend 1 height ax;
          ax = plt_bar 0 (Fin 0) avg_linker 2 height ax
      in \<lparr>fe_base = cursor, drawn = ax\<rparr>)"

text \<open>The outer layer is drawn at full height, the inner layer at the reduced height.\<close>

definition outer_layer :: "bar \<Rightarrow> bool" where
  "outer_layer b = (bar_height b = height)"

definition inner_layer :: "bar \<Rightarrow> bool" where
  "inner_layer b = (bar_height b = inner_height)"

definition value_vars :: "phase list" where
  "value_vars = [Frontend, Backend, Linker, Borrowck, Typeck, Metadata]"

definition plot_bar ::
  "row list \<Rightarrow> string option \<Rightarrow> string option \<Rightarrow> string option \<Rightarrow> bar list" where
  "plot_bar data profile' scenario' kind' =
     (let data = filter_data data profile' scenario' kind';
          data = melt data value_vars;
          avg_backend = section_mean data Backend;
          avg_linker = section_mean data Linker;
          avg_borrowck = section_mean data Borrowck;
          avg_typeck = section_mean data Typeck;
          avg_metadata = section_mean data Metadata
      in drawn (plot_bar_layout avg_backend avg_linker avg_borrowck avg_typeck avg_metadata))"

section \<open>Legends and figures\<close>

datatype patch = Patch nat string

definition create_bars :: "bool \<Rightarrow> patch list" where
  "create_bars with_metadata =
     (let bars = [Patch 0 ''Frontend'', Patch 1 ''Backend'', Patch 2 ''Linker'',
                  Patch 3 ''borrowck'', Patch 4 ''typeck''];
          bars = (if with_metadata then bars @ [Patch 5 ''metadata''] else bars)
      in bars)"

text \<open>
  What \<^verbatim>\<open>single_bench\<close> asks of pyplot: the bars of \<^verbatim>\<open>plot_bar\<close>, the handles of the
  legend, the visibility of the four spines, the size in inches, the resolution and the
  file written.
\<close>

record figure =
  fig_bars :: "bar list"
  fig_legend :: "patch list"
  fig_spines :: bool
  fig_size :: "nat \<times> nat"
  fig_dpi :: nat
  fig_file :: string

definition single_bench ::
  "row list \<Rightarrow> string \<Rightarrow> string \<Rightarrow> string \<Rightarrow> string \<Rightarrow> bool \<Rightarrow> figure" where
  "single_bench data name benchmark' profile' scenario' metadata' =
     (let ripgrep = select_benchmark data benchmark'
      in \<lparr>fig_bars = plot_bar ripgrep (Some profile') (Some scenario') None,
          fig_legend = create_bars metadata',
          fig_spines = False,
          fig_size = (5, 2),
          fig_dpi = 300,
          fig_file = name @ ''.png''\<rparr>)"

text \<open>
  \<^verbatim>\<open>sns.FacetGrid(...).map_dataframe(plot_bar)\<close>: one cell for every profile of the row
  order and every scenario of the column order, drawn by \<^verbatim>\<open>plot_bar\<close> on the rows of
  the cell with no further filter; seaborn skips a cell that has no rows.
\<close>

definition row_order :: "string list" where
  "row_order = [''Check'', ''Debug'', ''Opt'']"

definition col_order :: "string list" where
  "col_order = [''Full'', ''IncrFull'', ''IncrPatched0'', ''IncrUnchanged'']"

definition facet_cell :: "row list \<Rightarrow> string \<Rightarrow> string \<Rightarrow> (string \<times> string \<times> bar list) list" where
  "facet_cell data p s =
     (let cell = filter (\<lambda>r. profile r = p \<and> scenario r = s) data
      in if cell = [] then [] else [(p, s, plot_bar cell None None None)])"

definition map_dataframe :: "row list \<Rightarrow> (string \<times> string \<times> bar list) list" where
  "map_dataframe data =
     concat (map (\<lambda>p. concat (map (\<lambda>s. facet_cell data p s) col_order)) row_order)"

record grid_figure =
  grid_cells :: "(string \<times> string \<times> bar list) list"
  grid_legend :: "patch list"
  grid_size :: "nat \<times> nat"
  grid_dpi :: nat
  grid_file :: string

definition grid :: "row list \<Rightarrow> string \<Rightarrow> string option \<Rightarrow> string option \<Rightarrow> bool \<Rightarrow> grid_figure" where
  "grid data name benchmark' kind' metadata' =
     (let data = grid_data data benchmark' kind'
      in \<lparr>grid_cells = map_dataframe data,
          grid_legend = create_bars metadata',
          grid_size = (14, 6),
          grid_dpi = 300,
          grid_file = name @ ''.png''\<rparr>)"

text \<open>\<^verbatim>\<open>single_benchmark\<close>: the four calls of \<^verbatim>\<open>single_bench\<close>, in order.\<close>

definition single_benchmark :: "row list \<Rightarrow> string \<Rightarrow> bool \<Rightarrow> figure list" where
  "single_benchmark df benchmark' metadata' =
     [single_bench df (benchmark' @ ''-debug-full'') benchmark' ''Debug'' ''Full'' True,
      single_bench df (benchmark' @ ''-debug-incr-patched'') benchmark' ''Debug''
        ''IncrPatched0'' True,
      single_bench df (benchmark' @ ''-opt-incr-patched'') benchmark' ''Opt''
        ''IncrPatched0'' True,
      single_bench df (benchmark' @ ''-check-incr-patched'') benchmark' ''Check''
        ''IncrPatched0'' True]"

section \<open>The specification's notions\<close>

text \<open>
  The definitions of this section follow the words of the specification; the theorems
  compare them with the definitions above, which follow the source.
\<close>

text \<open>An optional exact-match predicate: an omitted one imposes no constraint.\<close>

definition supplied :: "string option \<Rightarrow> string \<Rightarrow> bool" where
  "supplied wanted v = (case wanted of None \<Rightarrow> True | Some w \<Rightarrow> v = w)"

text \<open>
  \<open>total = frontend + backend + linker\<close>, in the arithmetic of the columns, and
  \<open>field / total * 100\<close>, in double precision.
\<close>

definition spec_total :: "row \<Rightarrow> cell" where
  "spec_total r = col_add (col_add (frontend r) (backend r)) (linker r)"

definition spec_percent :: "cell \<Rightarrow> cell \<Rightarrow> pyfloat" where
  "spec_percent field tot = mul64 (div64 (to_float64 field) (to_float64 tot)) (Fin 100)"

text \<open>
  The amended formula, with the field narrowed to single precision first, and the row
  it gives.
\<close>

definition narrowed_percent :: "cell \<Rightarrow> cell \<Rightarrow> pyfloat" where
  "narrowed_percent field tot =
     mul64 (div64 (astype_float32 field) (to_float64 tot)) (Fin 100)"

definition narrowed_row :: "row \<Rightarrow> row" where
  "narrowed_row r =
     r\<lparr>frontend := F64 (narrowed_percent (frontend r) (spec_total r)),
       backend := F64 (narrowed_percent (backend r) (spec_total r)),
       linker := F64 (narrowed_percent (linker r) (spec_total r)),
       borrowck := F64 (narrowed_percent (borrowck r) (spec_total r)),
       typeck := F64 (narrowed_percent (typeck r) (spec_total r)),
       metadata := F64 (narrowed_percent (metadata r) (spec_total r)),
       total_col := None\<rparr>"

text \<open>
  A segment as the specification lists it: offset, width and the index of the colour in
  the palette (0 the frontend background, 1 backend, 2 linker, 3 borrowck, 4 typeck,
  5 metadata).
\<close>

definition segment :: "bar \<Rightarrow> pyfloat \<times> pyfloat \<times> nat" where
  "segment b = (bar_x b, bar_width b, bar_color b)"

text \<open>Equality within the tolerance \<open>1e-4\<close> of the specification's testable properties.\<close>

fun spec_within_tolerance :: "pyfloat \<Rightarrow> pyfloat \<Rightarrow> bool" where
  "spec_within_tolerance (Fin a) (Fin b) = (\<bar>a - b\<bar> \<le> 1 / 10000)"
| "spec_within_tolerance _ _ = False"

text \<open>
  The record of the specification's scenarios, \<open>Record(frontend, backend, linker, borrowck,
  typeck, metadata)\<close>, as a row of one benchmark.
\<close>

definition record_of :: "real \<Rightarrow> real \<Rightarrow> real \<Rightarrow> real \<Rightarrow> real \<Rightarrow> real \<Rightarrow> row" where
  "record_of fe be li bo ty me =
     \<lparr>benchmark = ''ripgrep-14.1.0'', profile = ''Debug'', scenario = ''Full'', kind = ''bin'',
      frontend = F64 (Fin fe), backend = F64 (Fin be), linker = F64 (Fin li),
      borrowck = F64 (Fin bo), typeck = F64 (Fin ty), metadata = F64 (Fin me),
      total_col = None\<rparr>"

text \<open>The same record in a frame whose duration columns are \<^verbatim>\<open>int64\<close>.\<close>

definition int_record_of :: "int \<Rightarrow> int \<Rightarrow> int \<Rightarrow> int \<Rightarrow> int \<Rightarrow> int \<Rightarrow> row" where
  "int_record_of fe be li bo ty me =
     \<lparr>benchmark = ''ripgrep-14.1.0'', profile = ''Debug'', scenario = ''Full'', kind = ''bin'',
      frontend = I64 fe, backend = I64 be, linker = I64 li,
      borrowck = I64 bo, typeck = I64 ty, metadata = I64 me, total_col = None\<rparr>"

section \<open>Facts about rounding\<close>

lemmas ieee_eval =
  add64_def mul64_def div64_def ieee_round_def exponent_def exponent_up.simps
  exponent_down.simps round_half_even_def Let_def

lemma round_half_even_error: "\<bar>of_int (round_half_even t) - t\<bar> \<le> 1 / 2"
  unfolding round_half_even_def Let_def by (auto; linarith)

lemma exponent_up_bounds:
  "1 \<le> x \<Longrightarrow> 2 powi (exponent_up x) \<le> x \<and> x < 2 powi (exponent_up x + 1)"
proof (induction x rule: exponent_up.induct)
  case (1 x)
  show ?case
  proof (cases "2 \<le> x")
    case True
    then have "1 \<le> x / 2" by simp
    with 1 True have ih:
      "2 powi (exponent_up (x / 2)) \<le> x / 2 \<and> x / 2 < 2 powi (exponent_up (x / 2) + 1)"
      by simp
    have e: "exponent_up x = exponent_up (x / 2) + 1"
      using True by (subst exponent_up.simps) simp
    show ?thesis
      using ih unfolding e by (simp add: power_int_add)
  next
    case False
    then have "exponent_up x = 0" by (subst exponent_up.simps) simp
    with False 1 show ?thesis by simp
  qed
qed

lemma exponent_down_bounds:
  "0 < x \<Longrightarrow> x < 1 \<Longrightarrow> 2 powi (exponent_down x) \<le> x \<and> x < 2 powi (exponent_down x + 1)"
proof (induction x rule: exponent_down.induct)
  case (1 x)
  have e: "exponent_down x = exponent_down (2 * x) - 1"
    using 1 by (subst exponent_down.simps) simp
  show ?case
  proof (cases "2 * x < 1")
    case True
    with 1 have ih:
      "2 powi (exponent_down (2 * x)) \<le> 2 * x \<and> 2 * x < 2 powi (exponent_down (2 * x) + 1)"
      by simp
    show ?thesis
      using ih unfolding e by (simp add: power_int_add power_int_diff)
  next
    case False
    then have "exponent_down (2 * x) = 0" by (subst exponent_down.simps) simp
    with False 1 show ?thesis unfolding e by (simp add: power_int_minus)
  qed
qed

lemma exponent_bounds:
  "0 < x \<Longrightarrow> 2 powi (exponent x) \<le> x \<and> x < 2 powi (exponent x + 1)"
  using exponent_up_bounds [of x] exponent_down_bounds [of x]
  by (cases "1 \<le> x") (simp_all add: exponent_def)

lemma round_float64_near:
  assumes "\<bar>x\<bar> < 128"
  shows "\<exists>y. round_float64 (Fin x) = Fin y \<and> \<bar>y - x\<bar> \<le> 1 / 2 ^ 47"
proof (cases "x = 0")
  case True
  then show ?thesis by (simp add: ieee_round_def)
next
  case False
  define e where "e = max (- 1022) (exponent \<bar>x\<bar>)"
  define ulp :: real where "ulp = 2 powi (e - 52)"
  define y where "y = of_int (round_half_even (x / ulp)) * ulp"
  from False have pos: "0 < \<bar>x\<bar>" by simp
  have "2 powi (exponent \<bar>x\<bar>) \<le> \<bar>x\<bar>"
    using exponent_bounds [OF pos] by simp
  with assms have "(2::real) powi (exponent \<bar>x\<bar>) < 2 powi 7" by simp
  then have "exponent \<bar>x\<bar> < 7"
    by (rule power_int_le_imp_less_exp [rotated]) simp_all
  then have e: "e - 52 \<le> - 46" by (simp add: e_def)
  have ulp_pos: "0 < ulp" by (simp add: ulp_def zero_less_power_int)
  have "ulp \<le> 2 powi (- 46)"
    unfolding ulp_def using e by (rule power_int_increasing) simp
  then have ulp_le: "ulp \<le> 1 / 2 ^ 46" by (simp add: power_int_minus divide_simps)
  have "y - x = (of_int (round_half_even (x / ulp)) - x / ulp) * ulp"
    using ulp_pos by (simp add: y_def left_diff_distrib)
  then have "\<bar>y - x\<bar> = \<bar>of_int (round_half_even (x / ulp)) - x / ulp\<bar> * ulp"
    using ulp_pos by (simp add: abs_mult)
  also have "\<dots> \<le> 1 / 2 * ulp"
    using round_half_even_error [of "x / ulp"] ulp_pos by (intro mult_right_mono) simp_all
  also have "\<dots> \<le> 1 / 2 ^ 47" using ulp_le by simp
  finally have near: "\<bar>y - x\<bar> \<le> 1 / 2 ^ 47" .
  have "(1::real) / 2 ^ 47 \<le> 1" by simp
  with near have "\<bar>y - x\<bar> \<le> 1" by (rule order_trans)
  with assms have "\<bar>y\<bar> < 129" by linarith
  then have "\<not> 2 powi 1024 \<le> \<bar>y\<bar>" by simp
  then have "round_float64 (Fin x) = Fin y"
    using False by (simp add: ieee_round_def Let_def y_def ulp_def e_def)
  with near show ?thesis by blast
qed

lemma add64_near:
  "\<bar>a + b\<bar> < 128 \<Longrightarrow> \<exists>y. add64 (Fin a) (Fin b) = Fin y \<and> \<bar>y - (a + b)\<bar> \<le> 1 / 2 ^ 47"
  using round_float64_near [of "a + b"] by (simp add: add64_def)













section \<open>Facts about the selection\<close>

lemma filter_data_filter:
  "filter_data data p s k =
     filter (\<lambda>r. supplied p (profile r) \<and> supplied s (scenario r) \<and> supplied k (kind r)) data"
  by (cases p; cases s; cases k) (simp_all add: filter_data_def supplied_def conj_ac)

lemma grid_data_filter:
  "grid_data data b k = filter (\<lambda>r. supplied b (benchmark r) \<and> supplied k (kind r)) data"
  by (cases b; cases k) (simp_all add: grid_data_def select_benchmark_def supplied_def)

section \<open>Facts about the aggregation\<close>

lemma get_col_eta:
  "get_col Frontend = frontend" "get_col Backend = backend" "get_col Linker = linker"
  "get_col Borrowck = borrowck" "get_col Typeck = typeck" "get_col Metadata = metadata"
  by (rule ext, simp)+

lemma section_mean_melt:
  "section_mean (melt data value_vars) v = mean (map (get_col v) data)"
  by (cases v)
    (simp_all add: section_mean_def melt_def value_vars_def filter_map o_def get_col_eta)

lemma mean_Nil: "mean [] = NaN"
  by (simp add: mean_def)



section \<open>Facts about the layout\<close>

lemma drawn_plot_bar_layout:
  "drawn (plot_bar_layout be li bo ty me) =
     [\<lparr>bar_y = 0, bar_x = Fin 0, bar_width = Fin 100, bar_color = 0, bar_height = height\<rparr>,
      \<lparr>bar_y = y_offset, bar_x = add64 be li, bar_width = bo, bar_color = 3,
        bar_height = inner_height\<rparr>,
      \<lparr>bar_y = y_offset, bar_x = add64 (add64 be li) bo, bar_width = ty, bar_color = 4,
        bar_height = inner_height\<rparr>,
      \<lparr>bar_y = y_offset, bar_x = add64 (add64 (add64 be li) bo) ty, bar_width = me,
        bar_color = 5, bar_height = inner_height\<rparr>,
      \<lparr>bar_y = 0, bar_x = li, bar_width = be, bar_color = 1, bar_height = height\<rparr>,
      \<lparr>bar_y = 0, bar_x = Fin 0, bar_width = li, bar_color = 2, bar_height = height\<rparr>]"
  by (simp add: plot_bar_layout_def plt_bar_def Let_def)

lemma heights: "height = 1" "y_offset = 1 / 2" "inner_height = 1 / 2"
  by (simp_all add: height_def y_offset_def inner_height_def)

lemma outer_segments:
  "map segment (filter outer_layer (drawn (plot_bar_layout be li bo ty me))) =
     [(Fin 0, Fin 100, 0), (li, be, 1), (Fin 0, li, 2)]"
  by (simp add: drawn_plot_bar_layout outer_layer_def segment_def heights)

lemma inner_bars:
  "filter inner_layer (drawn (plot_bar_layout be li bo ty me)) =
     [\<lparr>bar_y = y_offset, bar_x = add64 be li, bar_width = bo, bar_color = 3,
        bar_height = inner_height\<rparr>,
      \<lparr>bar_y = y_offset, bar_x = add64 (add64 be li) bo, bar_width = ty, bar_color = 4,
        bar_height = inner_height\<rparr>,
      \<lparr>bar_y = y_offset, bar_x = add64 (add64 (add64 be li) bo) ty, bar_width = me,
        bar_color = 5, bar_height = inner_height\<rparr>]"
  by (simp add: drawn_plot_bar_layout inner_layer_def heights)

lemma inner_segments:
  "map segment (filter inner_layer (drawn (plot_bar_layout be li bo ty me))) =
     [(add64 be li, bo, 3), (add64 (add64 be li) bo, ty, 4),
      (add64 (add64 (add64 be li) bo) ty, me, 5)]"
  by (simp add: inner_bars segment_def)

lemma plot_bar_means:
  "plot_bar data p s k =
     (let rows = filter_data data p s k
      in drawn (plot_bar_layout (mean (map backend rows)) (mean (map linker rows))
           (mean (map borrowck rows)) (mean (map typeck rows)) (mean (map metadata rows))))"
  by (simp add: plot_bar_def Let_def section_mean_melt get_col_eta)

lemma plot_bar_colors: "map bar_color (plot_bar data p s k) = [0, 3, 4, 5, 1, 2]"
  by (simp add: plot_bar_means Let_def drawn_plot_bar_layout)

lemma plot_bar_metadata_bar:
  "plot_bar data p s k ! 3 =
     \<lparr>bar_y = y_offset,
      bar_x = add64 (add64 (add64 (mean (map backend (filter_data data p s k)))
                (mean (map linker (filter_data data p s k))))
                (mean (map borrowck (filter_data data p s k))))
                (mean (map typeck (filter_data data p s k))),
      bar_width = mean (map metadata (filter_data data p s k)),
      bar_color = 5, bar_height = inner_height\<rparr>"
  by (simp add: plot_bar_means Let_def drawn_plot_bar_layout)

lemma map_dataframe_cells:
  "c \<in> set (map_dataframe data) \<Longrightarrow> \<exists>p s cell. c = (p, s, plot_bar cell None None None)"
  by (auto simp: map_dataframe_def facet_cell_def Let_def split: if_splits)


section \<open>Facts about the normalization\<close>

lemma total_set_col: "total_col (set_col key v r) = total_col r"
  by (cases key) simp_all

lemma normalize_column_map:
  "(\<And>r. total_col (g r) = Some (t r)) \<Longrightarrow>
   normalize_column key (map g df) =
     Inr (map (\<lambda>r. set_col key
                 (F64 (mul64 (div64 (astype_float32 (get_col key (g r))) (to_float64 (t r)))
                    (Fin 100))) (g r)) df)"
  by (induction df) (simp_all add: normalize_cell_def)

lemma normalize_columns_map:
  "(\<And>r. total_col (g r) = Some (t r)) \<Longrightarrow>
   normalize_columns keys (map g df) =
     Inr (map (\<lambda>r. fold (\<lambda>key x. set_col key
                 (F64 (mul64 (div64 (astype_float32 (get_col key x)) (to_float64 (t r)))
                    (Fin 100))) x) keys (g r)) df)"
proof (induction keys arbitrary: g)
  case Nil
  show ?case by simp
next
  case (Cons key keys)
  let ?g = "\<lambda>r. set_col key
              (F64 (mul64 (div64 (astype_float32 (get_col key (g r))) (to_float64 (t r)))
                 (Fin 100))) (g r)"
  have col: "normalize_column key (map g df) = Inr (map ?g df)"
    using Cons.prems by (rule normalize_column_map)
  have tot: "\<And>r. total_col (?g r) = Some (t r)"
    using Cons.prems by (simp add: total_set_col)
  show ?case
    using Cons.IH [of ?g, OF tot] by (simp add: col)
qed

lemma normalization_rows: "normalization df = Inr (map narrowed_row df)"
proof -
  let ?t = "\<lambda>r. col_add (col_add (frontend r) (backend r)) (linker r)"
  have "normalize_columns duration_keys (map (\<lambda>r. r\<lparr>total_col := Some (?t r)\<rparr>) df) =
     Inr (map (\<lambda>r. fold (\<lambda>key x. set_col key
                 (F64 (mul64 (div64 (astype_float32 (get_col key x)) (to_float64 (?t r)))
                    (Fin 100))) x)
                 duration_keys (r\<lparr>total_col := Some (?t r)\<rparr>)) df)"
    by (rule normalize_columns_map) simp
  then show ?thesis
    by (simp add: normalization_def add_total_def drop_total_def duration_keys_def
        narrowed_row_def narrowed_percent_def spec_total_def)
qed

lemma get_col_narrowed_row:
  "get_col key (narrowed_row r) = F64 (narrowed_percent (get_col key r) (spec_total r))"
  by (cases key) (simp_all add: narrowed_row_def)


section \<open>The claims\<close>

text \<open>
  C1. For the means backend 30, linker 10, borrowck 20, typeck 25 and metadata 5 the
  layout draws, in this order, the frontend background at offset 0 with width 100, borrowck
  at offset 40 with width 20, typeck at offset 60 with width 25, metadata at offset 85
  with width 5, backend at offset 10 with width 30 and linker at offset 0 with width 10.
  The cursor \<^verbatim>\<open>fe_base\<close> is the offset of each inner bar when it is drawn: 40, then 60,
  then 85, its last value, all at most 100. The record with frontend 60, backend 30,
  linker 10, borrowck 20, typeck 25 and metadata 5 is its own normalization, and
  \<^verbatim>\<open>plot_bar\<close> on it alone draws this layout.
\<close>

theorem layout_concrete_scenario:
  "plot_bar_layout (Fin 30) (Fin 10) (Fin 20) (Fin 25) (Fin 5) =
     \<lparr>fe_base = Fin 85,
      drawn =
        [\<lparr>bar_y = 0, bar_x = Fin 0, bar_width = Fin 100, bar_color = 0, bar_height = 1\<rparr>,
         \<lparr>bar_y = 1 / 2, bar_x = Fin 40, bar_width = Fin 20, bar_color = 3, bar_height = 1 / 2\<rparr>,
         \<lparr>bar_y = 1 / 2, bar_x = Fin 60, bar_width = Fin 25, bar_color = 4, bar_height = 1 / 2\<rparr>,
         \<lparr>bar_y = 1 / 2, bar_x = Fin 85, bar_width = Fin 5, bar_color = 5, bar_height = 1 / 2\<rparr>,
         \<lparr>bar_y = 0, bar_x = Fin 10, bar_width = Fin 30, bar_color = 1, bar_height = 1\<rparr>,
         \<lparr>bar_y = 0, bar_x = Fin 0, bar_width = Fin 10, bar_color = 2, bar_height = 1\<rparr>]\<rparr>
   \<and> map segment (filter outer_layer
         (drawn (plot_bar_layout (Fin 30) (Fin 10) (Fin 20) (Fin 25) (Fin 5)))) =
       [(Fin 0, Fin 100, 0), (Fin 10, Fin 30, 1), (Fin 0, Fin 10, 2)]
   \<and> map segment (filter inner_layer
         (drawn (plot_bar_layout (Fin 30) (Fin 10) (Fin 20) (Fin 25) (Fin 5)))) =
       [(Fin 40, Fin 20, 3), (Fin 60, Fin 25, 4), (Fin 85, Fin 5, 5)]
   \<and> fle (Fin 40) (Fin 100) \<and> fle (Fin 60) (Fin 100) \<and> fle (Fin 85) (Fin 100)
   \<and> normalization [record_of 60 30 10 20 25 5] = Inr [record_of 60 30 10 20 25 5]
   \<and> plot_bar [record_of 60 30 10 20 25 5] None None None =
       drawn (plot_bar_layout (Fin 30) (Fin 10) (Fin 20) (Fin 25) (Fin 5))"
proof -
  have c1: "add64 (Fin 30) (Fin 10) = Fin 40" by (simp add: ieee_eval)
  have c2: "add64 (Fin 40) (Fin 20) = Fin 60" by (simp add: ieee_eval)
  have c3: "add64 (Fin 60) (Fin 25) = Fin 85" by (simp add: ieee_eval)
  have lay: "plot_bar_layout (Fin 30) (Fin 10) (Fin 20) (Fin 25) (Fin 5) =
     \<lparr>fe_base = Fin 85,
      drawn =
        [\<lparr>bar_y = 0, bar_x = Fin 0, bar_width = Fin 100, bar_color = 0, bar_height = 1\<rparr>,
         \<lparr>bar_y = 1 / 2, bar_x = Fin 40, bar_width = Fin 20, bar_color = 3, bar_height = 1 / 2\<rparr>,
         \<lparr>bar_y = 1 / 2, bar_x = Fin 60, bar_width = Fin 25, bar_color = 4, bar_height = 1 / 2\<rparr>,
         \<lparr>bar_y = 1 / 2, bar_x = Fin 85, bar_width = Fin 5, bar_color = 5, bar_height = 1 / 2\<rparr>,
         \<lparr>bar_y = 0, bar_x = Fin 10, bar_width = Fin 30, bar_color = 1, bar_height = 1\<rparr>,
         \<lparr>bar_y = 0, bar_x = Fin 0, bar_width = Fin 10, bar_color = 2, bar_height = 1\<rparr>]\<rparr>"
    by (simp add: plot_bar_layout_def plt_bar_def Let_def heights c1 c2 c3)
  have outer: "map segment (filter outer_layer
         (drawn (plot_bar_layout (Fin 30) (Fin 10) (Fin 20) (Fin 25) (Fin 5)))) =
       [(Fin 0, Fin 100, 0), (Fin 10, Fin 30, 1), (Fin 0, Fin 10, 2)]"
    by (simp add: outer_segments)
  have inner: "map segment (filter inner_layer
         (drawn (plot_bar_layout (Fin 30) (Fin 10) (Fin 20) (Fin 25) (Fin 5)))) =
       [(Fin 40, Fin 20, 3), (Fin 60, Fin 25, 4), (Fin 85, Fin 5, 5)]"
    by (simp add: inner_segments c1 c2 c3)
  have tot: "spec_total (record_of 60 30 10 20 25 5) = F64 (Fin 100)"
    by (simp add: spec_total_def record_of_def ieee_eval)
  have p: "narrowed_percent (F64 (Fin 60)) (F64 (Fin 100)) = Fin 60"
    "narrowed_percent (F64 (Fin 30)) (F64 (Fin 100)) = Fin 30"
    "narrowed_percent (F64 (Fin 10)) (F64 (Fin 100)) = Fin 10"
    "narrowed_percent (F64 (Fin 20)) (F64 (Fin 100)) = Fin 20"
    "narrowed_percent (F64 (Fin 25)) (F64 (Fin 100)) = Fin 25"
    "narrowed_percent (F64 (Fin 5)) (F64 (Fin 100)) = Fin 5"
    by (simp_all add: narrowed_percent_def ieee_eval)
  have norm: "normalization [record_of 60 30 10 20 25 5] = Inr [record_of 60 30 10 20 25 5]"
    unfolding normalization_rows
    by (simp add: narrowed_row_def tot) (simp add: record_of_def p)
  have m: "mean [F64 (Fin 30)] = Fin 30" "mean [F64 (Fin 10)] = Fin 10"
    "mean [F64 (Fin 20)] = Fin 20" "mean [F64 (Fin 25)] = Fin 25" "mean [F64 (Fin 5)] = Fin 5"
    by (simp_all add: mean_def sum64_def ieee_eval)
  have plot: "plot_bar [record_of 60 30 10 20 25 5] None None None =
       drawn (plot_bar_layout (Fin 30) (Fin 10) (Fin 20) (Fin 25) (Fin 5))"
    by (simp add: plot_bar_means filter_data_def record_of_def m)
  show ?thesis
    using lay outer inner norm plot by simp
qed

text \<open>
  C2, as stated, fails: the field is narrowed to single precision before the division.
  For a row with frontend 16777217 and the other durations zero, the total is 16777217
  and \<open>field / total * 100\<close> is 100, but the narrowed field is 16777216 and the
  normalized frontend is \<open>7036873998336025 / 2 ^ 46\<close>, about 99.999994.
\<close>

theorem normalization_narrows_field:
  "normalization [record_of 16777217 0 0 0 0 0] =
     Inr [(record_of 16777217 0 0 0 0 0)\<lparr>frontend := F64 (Fin (7036873998336025 / 2 ^ 46))\<rparr>]
   \<and> spec_percent (F64 (Fin 16777217)) (spec_total (record_of 16777217 0 0 0 0 0)) = Fin 100
   \<and> Fin (7036873998336025 / 2 ^ 46) \<noteq> Fin 100"
proof -
  have tot: "spec_total (record_of 16777217 0 0 0 0 0) = F64 (Fin 16777217)"
    by (simp add: spec_total_def record_of_def ieee_eval)
  have p: "narrowed_percent (F64 (Fin 16777217)) (F64 (Fin 16777217)) =
      Fin (7036873998336025 / 2 ^ 46)"
    "narrowed_percent (F64 (Fin 0)) (F64 (Fin 16777217)) = Fin 0"
    "spec_percent (F64 (Fin 16777217)) (F64 (Fin 16777217)) = Fin 100"
    by (simp_all add: narrowed_percent_def spec_percent_def ieee_eval)
  have "normalization [record_of 16777217 0 0 0 0 0] =
     Inr [(record_of 16777217 0 0 0 0 0)\<lparr>frontend := F64 (Fin (7036873998336025 / 2 ^ 46))\<rparr>]"
    unfolding normalization_rows
    by (simp add: narrowed_row_def tot) (simp add: record_of_def p)
  then show ?thesis by (simp add: tot p)
qed

text \<open>
  C2, amended. Normalization never raises. With \<open>total = frontend + backend + linker\<close>
  of the row as read, added in the arithmetic of the columns (\<^verbatim>\<open>int64\<close> wraps around,
  \<^verbatim>\<open>float64\<close> rounds), it replaces each of the six duration columns by the field narrowed
  to single precision, divided by the total and multiplied by 100 in double precision;
  it keeps the four categorical columns and returns a frame without the column
  \<^verbatim>\<open>total\<close>.
\<close>

theorem normalization_narrowed_percentages:
  "normalization df = Inr (map narrowed_row df)
   \<and> (\<forall>r key. get_col key (narrowed_row r) =
         F64 (mul64 (div64 (astype_float32 (get_col key r))
                (to_float64 (col_add (col_add (frontend r) (backend r)) (linker r))))
              (Fin 100)))
   \<and> (\<forall>r. benchmark (narrowed_row r) = benchmark r \<and> profile (narrowed_row r) = profile r
          \<and> scenario (narrowed_row r) = scenario r \<and> kind (narrowed_row r) = kind r
          \<and> total_col (narrowed_row r) = None)"
  by (simp add: normalization_rows get_col_narrowed_row narrowed_percent_def spec_total_def)
    (simp add: narrowed_row_def)

theorem normalization_narrowed_percentages_witness:
  "normalization
     [record_of 120 60 20 40 50 10, int_record_of 3 1 0 2 1 0,
      int_record_of (2 ^ 62) (2 ^ 62) 0 0 0 0] =
     Inr [record_of 60 30 10 20 25 5, record_of 75 25 0 50 25 0,
          record_of (- 50) (- 50) 0 0 0 0]"
proof -
  have tot: "spec_total (record_of 120 60 20 40 50 10) = F64 (Fin 200)"
    "spec_total (int_record_of 3 1 0 2 1 0) = I64 4"
    "spec_total (int_record_of (2 ^ 62) (2 ^ 62) 0 0 0 0) = I64 (- (2 ^ 63))"
    by (simp_all add: spec_total_def record_of_def int_record_of_def wrap64_def ieee_eval)
  have p: "narrowed_percent (F64 (Fin 120)) (F64 (Fin 200)) = Fin 60"
    "narrowed_percent (F64 (Fin 60)) (F64 (Fin 200)) = Fin 30"
    "narrowed_percent (F64 (Fin 20)) (F64 (Fin 200)) = Fin 10"
    "narrowed_percent (F64 (Fin 40)) (F64 (Fin 200)) = Fin 20"
    "narrowed_percent (F64 (Fin 50)) (F64 (Fin 200)) = Fin 25"
    "narrowed_percent (F64 (Fin 10)) (F64 (Fin 200)) = Fin 5"
    "narrowed_percent (I64 3) (I64 4) = Fin 75"
    "narrowed_percent (I64 1) (I64 4) = Fin 25"
    "narrowed_percent (I64 0) (I64 4) = Fin 0"
    "narrowed_percent (I64 2) (I64 4) = Fin 50"
    "narrowed_percent (I64 (2 ^ 62)) (I64 (- (2 ^ 63))) = Fin (- 50)"
    "narrowed_percent (I64 0) (I64 (- (2 ^ 63))) = Fin 0"
    by (simp_all add: narrowed_percent_def ieee_eval)
  have "map narrowed_row
     [record_of 120 60 20 40 50 10, int_record_of 3 1 0 2 1 0,
      int_record_of (2 ^ 62) (2 ^ 62) 0 0 0 0] =
     [record_of 60 30 10 20 25 5, record_of 75 25 0 50 25 0, record_of (- 50) (- 50) 0 0 0 0]"
    by (simp add: narrowed_row_def tot [simplified])
      (simp add: record_of_def int_record_of_def p [simplified])
  with normalization_narrowed_percentages
    [of "[record_of 120 60 20 40 50 10, int_record_of 3 1 0 2 1 0,
          int_record_of (2 ^ 62) (2 ^ 62) 0 0 0 0]"]
  show ?thesis by simp
qed




text \<open>
  C4. \<^verbatim>\<open>filter_data\<close> returns the rows, in their order, that satisfy every supplied
  predicate among profile, scenario and kind; an omitted predicate imposes no constraint.
  The predicate on the benchmark is the callers': \<^verbatim>\<open>single_bench\<close> selects the
  benchmark's rows before \<^verbatim>\<open>plot_bar\<close> filters them, and \<^verbatim>\<open>grid\<close> selects by an
  optional benchmark and an optional kind. Each result is a new list; the functions have
  no access to the caller's frame.
\<close>

theorem filter_conjunction:
  "filter_data data p s k =
     filter (\<lambda>r. supplied p (profile r) \<and> supplied s (scenario r) \<and> supplied k (kind r)) data
   \<and> filter_data (select_benchmark data b) p s k =
     filter (\<lambda>r. benchmark r = b \<and> supplied p (profile r) \<and> supplied s (scenario r)
                  \<and> supplied k (kind r)) data
   \<and> grid_data data bo k =
     filter (\<lambda>r. supplied bo (benchmark r) \<and> supplied k (kind r)) data"
  by (simp add: filter_data_filter grid_data_filter select_benchmark_def)

text \<open>
  C5, as stated, fails: for the valid means backend 30, linker 10, borrowck 20, typeck 25
  and metadata 5 (the inner widths sum to 50, within the 60 left of the axis) the widths
  of the three outer bars sum to 140, not to 100 within the tolerance.
\<close>

theorem outer_widths_not_100:
  "fle (fadd (fadd (Fin 20) (Fin 25)) (Fin 5)) (Fin (100 - (30 + 10)))
   \<and> fsum (map bar_width (filter outer_layer
        (drawn (plot_bar_layout (Fin 30) (Fin 10) (Fin 20) (Fin 25) (Fin 5))))) = Fin 140
   \<and> \<not> spec_within_tolerance
        (fsum (map bar_width (filter outer_layer
          (drawn (plot_bar_layout (Fin 30) (Fin 10) (Fin 20) (Fin 25) (Fin 5))))))
        (Fin 100)"
  by (simp add: drawn_plot_bar_layout outer_layer_def heights fsum_def)

text \<open>
  C5, amended. For all means the outer layer is the frontend background at offset 0 with
  width 100, the backend block at offset \<open>avg_linker\<close> with width \<open>avg_backend\<close> and the
  linker block at offset 0 with width \<open>avg_linker\<close>; their widths sum to
  \<open>100 + avg_backend + avg_linker\<close>.
\<close>

theorem outer_widths_sum:
  "map segment (filter outer_layer (drawn (plot_bar_layout be li bo ty me))) =
     [(Fin 0, Fin 100, 0), (li, be, 1), (Fin 0, li, 2)]
   \<and> fsum (map bar_width (filter outer_layer (drawn (plot_bar_layout be li bo ty me)))) =
     fadd (fadd (Fin 100) be) li
   \<and> fsum (map bar_width (filter outer_layer
        (drawn (plot_bar_layout (Fin b) (Fin l) bo ty me)))) = Fin (100 + b + l)"
  by (simp add: outer_segments) (simp add: drawn_plot_bar_layout outer_layer_def heights fsum_def)

text \<open>
  C6, as stated, fails twice. With the means backend 0, linker 0, borrowck 120,
  typeck \<open>- 50\<close> and metadata 0 the inner widths sum to 70, within the 100 left of the
  axis, and the borrowck bar ends at 120. With non-negative means, those of the
  normalized record with frontend 25, backend 1, linker 1, borrowck 4, typeck 20 and
  metadata 1, the inner widths sum to less than what is left of the axis, and the
  metadata bar, drawn at the cursor rounded three times, ends above 100.
\<close>

theorem inner_segment_overruns_axis:
  "(120::real) + (- 50) + 0 \<le> 100 - (0 + 0)
   \<and> map segment (filter inner_layer
        (drawn (plot_bar_layout (Fin 0) (Fin 0) (Fin 120) (Fin (- 50)) (Fin 0)))) =
       [(Fin 0, Fin 120, 3), (Fin 120, Fin (- 50), 4), (Fin 70, Fin 0, 5)]
   \<and> \<not> fle (fadd (Fin 0) (Fin 120)) (Fin 100)
   \<and> (0::real) \<le> 4169999654972681 / 2 ^ 50 \<and> (0::real) \<le> 4169999654972681 / 2 ^ 48
   \<and> (0::real) \<le> 1303124892178963 / 2 ^ 44
   \<and> (4169999654972681 / 2 ^ 48 + 1303124892178963 / 2 ^ 44 + 4169999654972681 / 2 ^ 50 :: real)
        \<le> 100 - (4169999654972681 / 2 ^ 50 + 4169999654972681 / 2 ^ 50)
   \<and> normalization [record_of 25 1 1 4 20 1] =
       Inr [record_of (6515624460894815 / 2 ^ 46) (4169999654972681 / 2 ^ 50)
              (4169999654972681 / 2 ^ 50) (4169999654972681 / 2 ^ 48)
              (1303124892178963 / 2 ^ 44) (4169999654972681 / 2 ^ 50)]
   \<and> plot_bar [record_of (6515624460894815 / 2 ^ 46) (4169999654972681 / 2 ^ 50)
              (4169999654972681 / 2 ^ 50) (4169999654972681 / 2 ^ 48)
              (1303124892178963 / 2 ^ 44) (4169999654972681 / 2 ^ 50)] None None None =
       drawn (plot_bar_layout (Fin (4169999654972681 / 2 ^ 50)) (Fin (4169999654972681 / 2 ^ 50))
          (Fin (4169999654972681 / 2 ^ 48)) (Fin (1303124892178963 / 2 ^ 44))
          (Fin (4169999654972681 / 2 ^ 50)))
   \<and> map segment (filter inner_layer
        (drawn (plot_bar_layout (Fin (4169999654972681 / 2 ^ 50)) (Fin (4169999654972681 / 2 ^ 50))
          (Fin (4169999654972681 / 2 ^ 48)) (Fin (1303124892178963 / 2 ^ 44))
          (Fin (4169999654972681 / 2 ^ 50))))) =
       [(Fin (4169999654972681 / 2 ^ 49), Fin (4169999654972681 / 2 ^ 48), 3),
        (Fin (3127499741229511 / 2 ^ 47), Fin (1303124892178963 / 2 ^ 44), 4),
        (Fin (423515589958163 / 2 ^ 42), Fin (4169999654972681 / 2 ^ 50), 5)]
   \<and> \<not> fle (fadd (Fin (423515589958163 / 2 ^ 42)) (Fin (4169999654972681 / 2 ^ 50))) (Fin 100)"
proof -
  have neg: "map segment (filter inner_layer
        (drawn (plot_bar_layout (Fin 0) (Fin 0) (Fin 120) (Fin (- 50)) (Fin 0)))) =
       [(Fin 0, Fin 120, 3), (Fin 120, Fin (- 50), 4), (Fin 70, Fin 0, 5)]"
    by (simp add: inner_segments) (simp add: ieee_eval)
  have c: "add64 (Fin (4169999654972681 / 2 ^ 50)) (Fin (4169999654972681 / 2 ^ 50)) =
      Fin (4169999654972681 / 2 ^ 49)"
    "add64 (Fin (4169999654972681 / 2 ^ 49)) (Fin (4169999654972681 / 2 ^ 48)) =
      Fin (3127499741229511 / 2 ^ 47)"
    "add64 (Fin (3127499741229511 / 2 ^ 47)) (Fin (1303124892178963 / 2 ^ 44)) =
      Fin (423515589958163 / 2 ^ 42)"
    by (simp_all add: ieee_eval)
  have rnd: "map segment (filter inner_layer
        (drawn (plot_bar_layout (Fin (4169999654972681 / 2 ^ 50)) (Fin (4169999654972681 / 2 ^ 50))
          (Fin (4169999654972681 / 2 ^ 48)) (Fin (1303124892178963 / 2 ^ 44))
          (Fin (4169999654972681 / 2 ^ 50))))) =
       [(Fin (4169999654972681 / 2 ^ 49), Fin (4169999654972681 / 2 ^ 48), 3),
        (Fin (3127499741229511 / 2 ^ 47), Fin (1303124892178963 / 2 ^ 44), 4),
        (Fin (423515589958163 / 2 ^ 42), Fin (4169999654972681 / 2 ^ 50), 5)]"
    unfolding inner_segments c by simp
  have tot: "spec_total (record_of 25 1 1 4 20 1) = F64 (Fin 27)"
    by (simp add: spec_total_def record_of_def ieee_eval)
  have p: "narrowed_percent (F64 (Fin 25)) (F64 (Fin 27)) = Fin (6515624460894815 / 2 ^ 46)"
    "narrowed_percent (F64 (Fin 1)) (F64 (Fin 27)) = Fin (4169999654972681 / 2 ^ 50)"
    "narrowed_percent (F64 (Fin 4)) (F64 (Fin 27)) = Fin (4169999654972681 / 2 ^ 48)"
    "narrowed_percent (F64 (Fin 20)) (F64 (Fin 27)) = Fin (1303124892178963 / 2 ^ 44)"
    by (simp_all add: narrowed_percent_def ieee_eval)
  have norm: "normalization [record_of 25 1 1 4 20 1] =
       Inr [record_of (6515624460894815 / 2 ^ 46) (4169999654972681 / 2 ^ 50)
              (4169999654972681 / 2 ^ 50) (4169999654972681 / 2 ^ 48)
              (1303124892178963 / 2 ^ 44) (4169999654972681 / 2 ^ 50)]"
    unfolding normalization_rows
    by (simp add: narrowed_row_def tot) (simp add: record_of_def p [simplified])
  have m: "mean [F64 (Fin (4169999654972681 / 2 ^ 50))] = Fin (4169999654972681 / 2 ^ 50)"
    "mean [F64 (Fin (4169999654972681 / 2 ^ 48))] = Fin (4169999654972681 / 2 ^ 48)"
    "mean [F64 (Fin (1303124892178963 / 2 ^ 44))] = Fin (1303124892178963 / 2 ^ 44)"
    by (simp_all add: mean_def sum64_def ieee_eval)
  have plot: "plot_bar [record_of (6515624460894815 / 2 ^ 46) (4169999654972681 / 2 ^ 50)
              (4169999654972681 / 2 ^ 50) (4169999654972681 / 2 ^ 48)
              (1303124892178963 / 2 ^ 44) (4169999654972681 / 2 ^ 50)] None None None =
       drawn (plot_bar_layout (Fin (4169999654972681 / 2 ^ 50)) (Fin (4169999654972681 / 2 ^ 50))
          (Fin (4169999654972681 / 2 ^ 48)) (Fin (1303124892178963 / 2 ^ 44))
          (Fin (4169999654972681 / 2 ^ 50)))"
    by (simp add: plot_bar_means filter_data_def record_of_def m [simplified])
  have over: "\<not> fle (fadd (Fin (423515589958163 / 2 ^ 42)) (Fin (4169999654972681 / 2 ^ 50)))
      (Fin 100)"
    by simp
  have pre: "(4169999654972681 / 2 ^ 48 + 1303124892178963 / 2 ^ 44 + 4169999654972681 / 2 ^ 50 :: real)
        \<le> 100 - (4169999654972681 / 2 ^ 50 + 4169999654972681 / 2 ^ 50)"
    by simp
  show ?thesis
    using neg rnd norm plot over pre by simp
qed

text \<open>
  C6, amended. For finite, non-negative means with
  \<open>avg_borrowck + avg_typeck + avg_metadata \<le> 100 - (avg_backend + avg_linker)\<close>, the
  widths of the three inner bars are the three means, their sum added to the first
  position of the cursor is at most \<open>100 + 2 ^ - 45\<close>, and so is offset plus width of
  every inner bar: the cursor is a sum in double precision and passes 100 by rounding
  only. For all means, whether they satisfy this or not, the inner bars are drawn with
  exactly the widths given, at the cursor's positions: nothing is clamped.
\<close>

theorem inner_segments_near_axis:
  "(0 \<le> be \<and> 0 \<le> li \<and> 0 \<le> bo \<and> 0 \<le> ty \<and> 0 \<le> me \<and> bo + ty + me \<le> 100 - (be + li) \<longrightarrow>
      fsum (map bar_width (filter inner_layer
         (drawn (plot_bar_layout (Fin be) (Fin li) (Fin bo) (Fin ty) (Fin me))))) =
        Fin (bo + ty + me)
      \<and> fle (fadd (bar_x (hd (filter inner_layer
                (drawn (plot_bar_layout (Fin be) (Fin li) (Fin bo) (Fin ty) (Fin me))))))
             (Fin (bo + ty + me)))
          (Fin (100 + 1 / 2 ^ 45))
      \<and> (\<forall>b \<in> set (filter inner_layer
             (drawn (plot_bar_layout (Fin be) (Fin li) (Fin bo) (Fin ty) (Fin me)))).
           fle (fadd (bar_x b) (bar_width b)) (Fin (100 + 1 / 2 ^ 45))))
   \<and> map segment (filter inner_layer (drawn (plot_bar_layout be' li' bo' ty' me'))) =
       [(add64 be' li', bo', 3), (add64 (add64 be' li') bo', ty', 4),
        (add64 (add64 (add64 be' li') bo') ty', me', 5)]"
proof -
  have bound: "fsum (map bar_width (filter inner_layer
         (drawn (plot_bar_layout (Fin be) (Fin li) (Fin bo) (Fin ty) (Fin me))))) =
        Fin (bo + ty + me)
      \<and> fle (fadd (bar_x (hd (filter inner_layer
                (drawn (plot_bar_layout (Fin be) (Fin li) (Fin bo) (Fin ty) (Fin me))))))
             (Fin (bo + ty + me)))
          (Fin (100 + 1 / 2 ^ 45))
      \<and> (\<forall>b \<in> set (filter inner_layer
             (drawn (plot_bar_layout (Fin be) (Fin li) (Fin bo) (Fin ty) (Fin me)))).
           fle (fadd (bar_x b) (bar_width b)) (Fin (100 + 1 / 2 ^ 45)))"
    if h: "0 \<le> be" "0 \<le> li" "0 \<le> bo" "0 \<le> ty" "0 \<le> me"
      "bo + ty + me \<le> 100 - (be + li)"
  proof -
    have e: "(1::real) / 2 ^ 47 \<le> 1" "(4::real) / 2 ^ 47 = 1 / 2 ^ 45" by simp_all
    from h have "\<bar>be + li\<bar> < 128" by simp
    from add64_near [OF this] obtain c1 where
      c1: "add64 (Fin be) (Fin li) = Fin c1" "\<bar>c1 - (be + li)\<bar> \<le> 1 / 2 ^ 47" by blast
    from h c1 e have "\<bar>c1 + bo\<bar> < 128" by linarith
    from add64_near [OF this] obtain c2 where
      c2: "add64 (Fin c1) (Fin bo) = Fin c2" "\<bar>c2 - (c1 + bo)\<bar> \<le> 1 / 2 ^ 47" by blast
    from h c1 c2 e have "\<bar>c2 + ty\<bar> < 128" by linarith
    from add64_near [OF this] obtain c3 where
      c3: "add64 (Fin c2) (Fin ty) = Fin c3" "\<bar>c3 - (c2 + ty)\<bar> \<le> 1 / 2 ^ 47" by blast
    from h c1 c2 c3 e have ends: "c1 + bo \<le> 100 + 1 / 2 ^ 45" "c2 + ty \<le> 100 + 1 / 2 ^ 45"
      "c3 + me \<le> 100 + 1 / 2 ^ 45" "c1 + (bo + ty + me) \<le> 100 + 1 / 2 ^ 45"
      by linarith+
    show ?thesis
      unfolding inner_bars c1 c2 c3 using ends by (simp add: fsum_def)
  qed
  then show ?thesis
    by (simp add: inner_segments)
qed

theorem inner_segments_near_axis_witness:
  "(0::real) \<le> 30 \<and> (0::real) \<le> 10 \<and> (0::real) \<le> 20 \<and> (0::real) \<le> 25 \<and> (0::real) \<le> 5
   \<and> (20::real) + 25 + 5 \<le> 100 - (30 + 10)
   \<and> fsum (map bar_width (filter inner_layer
         (drawn (plot_bar_layout (Fin 30) (Fin 10) (Fin 20) (Fin 25) (Fin 5))))) = Fin (20 + 25 + 5)
   \<and> fle (fadd (bar_x (hd (filter inner_layer
             (drawn (plot_bar_layout (Fin 30) (Fin 10) (Fin 20) (Fin 25) (Fin 5))))))
          (Fin (20 + 25 + 5)))
        (Fin (100 + 1 / 2 ^ 45))
   \<and> list_all (\<lambda>b. fle (fadd (bar_x b) (bar_width b)) (Fin (100 + 1 / 2 ^ 45)))
        (filter inner_layer (drawn (plot_bar_layout (Fin 30) (Fin 10) (Fin 20) (Fin 25) (Fin 5))))
   \<and> map segment (filter inner_layer
        (drawn (plot_bar_layout (Fin 50) (Fin 30) (Fin 40) (Fin 10) (Fin 5)))) =
       [(Fin 80, Fin 40, 3), (Fin 120, Fin 10, 4), (Fin 130, Fin 5, 5)]"
proof -
  have c: "add64 (Fin 50) (Fin 30) = Fin 80" "add64 (Fin 80) (Fin 40) = Fin 120"
    "add64 (Fin 120) (Fin 10) = Fin 130"
    by (simp_all add: ieee_eval)
  from inner_segments_near_axis [of 30 10 20 25 5 "Fin 50" "Fin 30" "Fin 40" "Fin 10" "Fin 5"]
  show ?thesis
    by (simp add: list_all_iff c)
qed

text \<open>
  C7. Filtering is idempotent: filtering the result of \<^verbatim>\<open>filter_data\<close> again by the same
  predicates gives the same rows.
\<close>

theorem filter_data_idempotent:
  "filter_data (filter_data data p s k) p s k = filter_data data p s k"
  by (simp add: filter_data_filter)

text \<open>
  C8, as stated, fails: on an empty group the first bar drawn, the frontend background,
  has width 100, so the six widths are not six NaN.
\<close>

theorem empty_group_background_width:
  "map bar_width (plot_bar [] None None None) = [Fin 100, NaN, NaN, NaN, NaN, NaN]
   \<and> map bar_width (plot_bar [] None None None) \<noteq> [NaN, NaN, NaN, NaN, NaN, NaN]"
  by (simp add: plot_bar_means filter_data_def mean_Nil drawn_plot_bar_layout)

text \<open>
  C8, amended. When the filter matches no row, the mean of every one of the six sections
  is NaN, and \<^verbatim>\<open>plot_bar\<close> draws six bars: the frontend background at offset 0 with width
  100, and five bars of width NaN, namely borrowck, typeck, metadata and backend at offset
  NaN and linker at offset 0.
\<close>

theorem empty_group_layout:
  assumes "filter_data data p s k = []"
  shows "(\<forall>v. section_mean (melt (filter_data data p s k) value_vars) v = NaN)
    \<and> map segment (plot_bar data p s k) =
        [(Fin 0, Fin 100, 0), (NaN, NaN, 3), (NaN, NaN, 4), (NaN, NaN, 5), (NaN, NaN, 1),
         (Fin 0, NaN, 2)]"
  using assms
  by (simp add: section_mean_melt plot_bar_means mean_Nil drawn_plot_bar_layout segment_def
      add64_def)

theorem empty_group_layout_witness:
  "filter_data [record_of 60 30 10 20 25 5] (Some ''Opt'') (Some ''Full'') None = []
   \<and> section_mean
       (melt (filter_data [record_of 60 30 10 20 25 5] (Some ''Opt'') (Some ''Full'') None)
          value_vars) Frontend = NaN
   \<and> map segment (plot_bar [record_of 60 30 10 20 25 5] (Some ''Opt'') (Some ''Full'') None) =
        [(Fin 0, Fin 100, 0), (NaN, NaN, 3), (NaN, NaN, 4), (NaN, NaN, 5), (NaN, NaN, 1),
         (Fin 0, NaN, 2)]"
proof -
  have h: "filter_data [record_of 60 30 10 20 25 5] (Some ''Opt'') (Some ''Full'') None = []"
    by (simp add: filter_data_def record_of_def)
  from empty_group_layout [OF h] h show ?thesis by simp
qed

text \<open>
  C9. The flag \<^verbatim>\<open>metadata\<close> of \<^verbatim>\<open>single_bench\<close> and of \<^verbatim>\<open>grid\<close> reaches the legend only.
  The bars are those of \<^verbatim>\<open>plot_bar\<close> on the selected rows, whatever the flag; the figure
  for one value of the flag is the figure for the other with the legend replaced; the
  legend with the flag is the legend without it followed by the metadata swatch. The
  metadata bar, of colour 5 and of the width of the mean of the metadata column, is the
  fourth bar of every figure and of every cell of a grid.
\<close>

theorem metadata_flag_legend_only:
  "fig_bars (single_bench data name b p s m) =
     plot_bar (select_benchmark data b) (Some p) (Some s) None
   \<and> single_bench data name b p s m =
       (single_bench data name b p s (\<not> m))\<lparr>fig_legend := create_bars m\<rparr>
   \<and> grid_cells (grid data name bo k m) = map_dataframe (grid_data data bo k)
   \<and> grid data name bo k m = (grid data name bo k (\<not> m))\<lparr>grid_legend := create_bars m\<rparr>
   \<and> create_bars True = create_bars False @ [Patch 5 ''metadata'']
   \<and> Patch 5 ''metadata'' \<notin> set (create_bars False)
   \<and> map bar_color (fig_bars (single_bench data name b p s m)) = [0, 3, 4, 5, 1, 2]
   \<and> bar_width (fig_bars (single_bench data name b p s m) ! 3) =
       mean (map metadata (filter_data (select_benchmark data b) (Some p) (Some s) None))
   \<and> (\<forall>c \<in> set (grid_cells (grid data name bo k m)).
        map bar_color (snd (snd c)) = [0, 3, 4, 5, 1, 2])"
proof -
  have cells: "\<forall>c \<in> set (map_dataframe (grid_data data bo k)).
        map bar_color (snd (snd c)) = [0, 3, 4, 5, 1, 2]"
    using map_dataframe_cells plot_bar_colors by fastforce
  have legend: "create_bars True = create_bars False @ [Patch 5 ''metadata'']"
    "Patch 5 ''metadata'' \<notin> set (create_bars False)"
    by (simp_all add: create_bars_def)
  show ?thesis
    using cells legend
    by (simp add: single_bench_def grid_def plot_bar_colors plot_bar_metadata_bar)
qed

theorem metadata_flag_legend_only_witness:
  "grid_cells (grid [record_of 60 30 10 20 25 5] ''ripgrep'' (Some ''ripgrep-14.1.0'') None False) =
     [(''Debug'', ''Full'', plot_bar [record_of 60 30 10 20 25 5] None None None)]
   \<and> list_all (\<lambda>c. map bar_color (snd (snd c)) = [0, 3, 4, 5, 1, 2])
       (grid_cells (grid [record_of 60 30 10 20 25 5] ''ripgrep'' (Some ''ripgrep-14.1.0'')
          None False))"
proof -
  have cells: "grid_cells (grid [record_of 60 30 10 20 25 5] ''ripgrep'' (Some ''ripgrep-14.1.0'') None False) =
     [(''Debug'', ''Full'', plot_bar [record_of 60 30 10 20 25 5] None None None)]"
    by (simp add: grid_def grid_data_def select_benchmark_def map_dataframe_def facet_cell_def
        row_order_def col_order_def record_of_def)
  from metadata_flag_legend_only [of "[record_of 60 30 10 20 25 5]" "''ripgrep''"
      "''ripgrep-14.1.0''" "''Debug''" "''Full''" False "Some ''ripgrep-14.1.0''" None]
  have "\<forall>c \<in> set (grid_cells (grid [record_of 60 30 10 20 25 5] ''ripgrep''
      (Some ''ripgrep-14.1.0'') None False)). map bar_color (snd (snd c)) = [0, 3, 4, 5, 1, 2]"
    by blast
  with cells show ?thesis by (simp add: list_all_iff)
qed

text \<open>
  C10. \<^verbatim>\<open>single_benchmark\<close> ignores its parameter \<^verbatim>\<open>metadata\<close>: for every value of it the
  result is the one for \<open>True\<close>, four figures of the benchmark's rows for Debug and Full,
  Debug and IncrPatched0, Opt and IncrPatched0, Check and IncrPatched0, each with the
  legend that includes the metadata swatch.
\<close>

theorem single_benchmark_ignores_metadata:
  "single_benchmark df b m = single_benchmark df b True
   \<and> map fig_bars (single_benchmark df b m) =
       [plot_bar (select_benchmark df b) (Some ''Debug'') (Some ''Full'') None,
        plot_bar (select_benchmark df b) (Some ''Debug'') (Some ''IncrPatched0'') None,
        plot_bar (select_benchmark df b) (Some ''Opt'') (Some ''IncrPatched0'') None,
        plot_bar (select_benchmark df b) (Some ''Check'') (Some ''IncrPatched0'') None]
   \<and> map fig_legend (single_benchmark df b m) =
       [create_bars True, create_bars True, create_bars True, create_bars True]
   \<and> Patch 5 ''metadata'' \<in> set (create_bars True)
   \<and> map fig_file (single_benchmark df b m) =
       [b @ ''-debug-full.png'', b @ ''-debug-incr-patched.png'',
        b @ ''-opt-incr-patched.png'', b @ ''-check-incr-patched.png'']"
  by (simp add: single_benchmark_def single_bench_def create_bars_def)

end
